theory Spec2Isabelle
  imports Complex_Main
begin

section \<open>Values, errors and arrays\<close>

text \<open>
  The script \<^verbatim>\<open>scripts/galaxy_spaxel_mstar.py\<close> reads three tables of a catalog,
  builds a two-dimensional array of stellar masses for one galaxy, trims it and writes it
  as delimited text. The arrays hold floating-point numbers that the script only copies,
  compares with nothing and prints: a float is either a number or the not-a-number value
  \<^verbatim>\<open>np.nan\<close>.
\<close>

datatype float = Val real | NaN

text \<open>
  The exceptions a run can end with. \<open>IndexError\<close> is raised by an out-of-bounds
  index, \<open>OSError\<close> by a file that cannot be opened or written, \<open>MarvinError\<close> by
  the cube service. \<open>NotFoundError\<close> is the name the specification uses for a missing
  galaxy; no statement of the script raises it.
\<close>

datatype error = IndexError | OSError | MarvinError | NotFoundError

text \<open>
  A two-dimensional array knows its shape even when it has no rows: \<open>shape0\<close> rows of
  \<open>shape1\<close> cells each.
\<close>

record 'a array2 =
  shape0 :: nat
  shape1 :: nat
  cells :: "'a list list"

definition rect :: "'a array2 \<Rightarrow> bool" where
  "rect a \<longleftrightarrow> length (cells a) = shape0 a \<and> list_all (\<lambda>r. length r = shape1 a) (cells a)"

text \<open>
  One cell of the table \<^verbatim>\<open>SPAXEL_BINID\<close> carries six numbers, in this order
  (source lines 43 to 49); only the first is read.
\<close>

record spaxel =
  binid :: real
  xmin :: real
  xmax :: real
  ymin :: real
  ymax :: real
  image_size :: real

text \<open>
  The opened catalog: the column \<^verbatim>\<open>PLATEIFU\<close> of \<^verbatim>\<open>GALAXY_INFO\<close>, one page of
  \<^verbatim>\<open>SPAXEL_BINID\<close> per galaxy, and one list of (Mstar, Mstar_err) pairs per galaxy from
  \<^verbatim>\<open>STELLAR_MASS_VORONOI\<close>.
\<close>

record catalog =
  plateifus :: "string list"
  spaxel_binid :: "spaxel array2 list"
  mstar_all :: "(float \<times> float) list list"

section \<open>Indexing as the array library does it\<close>

text \<open>
  An integer index \<open>i\<close> into an axis of length \<open>n\<close> is valid when \<open>-n \<le> i < n\<close>; a
  negative one counts from the end. Anything else raises \<open>IndexError\<close>.
\<close>

definition getitem :: "'a list \<Rightarrow> int \<Rightarrow> error + 'a" where
  "getitem xs i =
     (let n = int (length xs) in
      if 0 \<le> i \<and> i < n then Inr (xs ! nat i)
      else if - n \<le> i \<and> i < 0 then Inr (xs ! nat (i + n))
      else Inl IndexError)"

text \<open>Indexing with an array of integers gathers one element per index.\<close>

fun gather :: "'a list \<Rightarrow> int list \<Rightarrow> error + 'a list" where
  "gather xs [] = Inr []"
| "gather xs (i # js) =
     (case getitem xs i of
        Inl e \<Rightarrow> Inl e
      | Inr v \<Rightarrow> (case gather xs js of Inl e \<Rightarrow> Inl e | Inr vs \<Rightarrow> Inr (v # vs)))"

text \<open>\<^verbatim>\<open>np.where(xs == v)[0]\<close>: the positions holding \<open>v\<close>, in increasing order.\<close>

definition where_eq :: "'a list \<Rightarrow> 'a \<Rightarrow> nat list" where
  "where_eq xs v = filter (\<lambda>k. xs ! k = v) [0..<length xs]"

text \<open>\<^verbatim>\<open>xs[ks] = v\<close> for an array \<open>ks\<close> of positions.\<close>

definition put :: "'a list \<Rightarrow> nat list \<Rightarrow> 'a \<Rightarrow> 'a list" where
  "put xs ks v = foldl (\<lambda>acc k. acc[k := v]) xs ks"

text \<open>
  \<^verbatim>\<open>a[:stop]\<close> on an axis of length \<open>n\<close> keeps this many leading elements: a stop
  beyond the end is clamped, a negative stop counts from the end.
\<close>

definition slice_stop :: "int \<Rightarrow> nat \<Rightarrow> nat" where
  "slice_stop stop n = (if stop < 0 then nat (max 0 (stop + int n)) else min (nat stop) n)"

section \<open>Selecting the galaxy (source lines 56 and 57)\<close>

text \<open>
  The column \<^verbatim>\<open>PLATEIFU\<close> is a character array of the table reader. Its \<^verbatim>\<open>==\<close>
  compares element by element after stripping the trailing whitespace (and the padding
  zero bytes) of both sides, so an identifier followed by blanks equals the same
  identifier without them.
\<close>

definition strip_char :: "char \<Rightarrow> bool" where
  "strip_char c \<longleftrightarrow>
     c \<in> set [CHR 0x00, CHR 0x09, CHR 0x0A, CHR 0x0B, CHR 0x0C, CHR 0x0D, CHR 0x20]"

definition rstrip :: "string \<Rightarrow> string" where
  "rstrip s = rev (dropWhile strip_char (rev s))"

definition chararray_eq :: "string \<Rightarrow> string \<Rightarrow> bool" where
  "chararray_eq a b \<longleftrightarrow> rstrip a = rstrip b"

text \<open>
  \<^verbatim>\<open>np.where(plateifus == args.plateifu)[0][0]\<close>: the comparison gives one truth
  value per row, \<^verbatim>\<open>np.where\<close> the positions of the true ones, and the final index
  the first of them.
\<close>

definition select_ind1 :: "string list \<Rightarrow> string \<Rightarrow> error + nat" where
  "select_ind1 ps plateifu =
     getitem (where_eq (map (\<lambda>p. chararray_eq p plateifu) ps) True) 0"

text \<open>
  \<^verbatim>\<open>astype(int)\<close> drops the fractional part and yields a 64-bit integer; a value
  outside the 64-bit range comes out as the least 64-bit integer (the conversion of the
  x86-64 processor).
\<close>

definition astype_int :: "real \<Rightarrow> int" where
  "astype_int x =
     (let t = (if x < 0 then \<lceil>x\<rceil> else \<lfloor>x\<rfloor>)
      in if - (2 ^ 63) \<le> t \<and> t < 2 ^ 63 then t else - (2 ^ 63))"

text \<open>\<^verbatim>\<open>spaxel_binid[ind1, :, :, 0].astype(int)\<close>\<close>

definition select_binid :: "spaxel array2 list \<Rightarrow> nat \<Rightarrow> error + int array2" where
  "select_binid tbl ind1 =
     (case getitem tbl (int ind1) of
        Inl e \<Rightarrow> Inl e
      | Inr page \<Rightarrow>
          Inr \<lparr>shape0 = shape0 page, shape1 = shape1 page,
               cells = map (map (\<lambda>s. astype_int (binid s))) (cells page)\<rparr>)"

section \<open>The mass array (source lines 60 to 64)\<close>

text \<open>\<^verbatim>\<open>np.ones(shape) * np.nan\<close>: every product with not-a-number is not-a-number.\<close>

definition times_nan :: "float \<Rightarrow> float" where
  "times_nan x = NaN"

definition ones_times_nan :: "nat \<Rightarrow> nat \<Rightarrow> float array2" where
  "ones_times_nan r c =
     \<lparr>shape0 = r, shape1 = c, cells = replicate r (replicate c (times_nan (Val 1)))\<rparr>"

text \<open>
  \<^verbatim>\<open>mstar_all[ind1, inds, 0]\<close>: the galaxy's page, its first field (the mass, not
  the error), gathered at the bin ids of one row.
\<close>

definition mass_column :: "(float \<times> float) list \<Rightarrow> float list" where
  "mass_column page = map fst page"

definition mstar_all_at :: "(float \<times> float) list list \<Rightarrow> nat \<Rightarrow> int list \<Rightarrow> error + float list" where
  "mstar_all_at tbl ind1 inds =
     (case getitem tbl (int ind1) of
        Inl e \<Rightarrow> Inl e
      | Inr page \<Rightarrow> gather (mass_column page) inds)"

text \<open>
  The loop over \<^verbatim>\<open>enumerate(ind_binid)\<close>. Each round finds the sentinel positions of
  the row, stores the gathered masses in row \<open>row\<close> of \<open>mstar\<close>, then overwrites the
  sentinel positions of that row with not-a-number. An \<open>IndexError\<close> of the gather
  leaves the loop.
\<close>

fun mstar_loop ::
  "(float \<times> float) list list \<Rightarrow> nat \<Rightarrow> nat \<Rightarrow> int list list \<Rightarrow> float list list \<Rightarrow>
   error + float list list" where
  "mstar_loop tbl ind1 row [] mstar = Inr mstar"
| "mstar_loop tbl ind1 row (inds # rest) mstar =
     (let ind_nans = where_eq inds (- 99) in
      case mstar_all_at tbl ind1 inds of
        Inl e \<Rightarrow> Inl e
      | Inr vals \<Rightarrow>
          (let m1 = mstar[row := vals];
               m2 = m1[row := put (m1 ! row) ind_nans NaN]
           in mstar_loop tbl ind1 (Suc row) rest m2))"

definition build_mstar ::
  "(float \<times> float) list list \<Rightarrow> nat \<Rightarrow> int array2 \<Rightarrow> error + float array2" where
  "build_mstar tbl ind1 ind_binid =
     (let mstar = ones_times_nan (shape0 ind_binid) (shape1 ind_binid) in
      case mstar_loop tbl ind1 0 (cells ind_binid) (cells mstar) of
        Inl e \<Rightarrow> Inl e
      | Inr m \<Rightarrow> Inr (mstar\<lparr>cells := m\<rparr>))"

section \<open>Trimming and writing (source lines 66 to 73)\<close>

text \<open>\<^verbatim>\<open>mstar[:len_x, :len_x]\<close>\<close>

definition crop :: "'a array2 \<Rightarrow> int \<Rightarrow> 'a array2" where
  "crop a len_x =
     \<lparr>shape0 = slice_stop len_x (shape0 a),
      shape1 = slice_stop len_x (shape1 a),
      cells = map (take (slice_stop len_x (shape1 a)))
                (take (slice_stop len_x (shape0 a)) (cells a))\<rparr>"

text \<open>Decimal digits of a column label, as \<^verbatim>\<open>str\<close> prints a non-negative integer.\<close>

definition digit_char :: "nat \<Rightarrow> char" where
  "digit_char d = ''0123456789'' ! d"

fun str_nat :: "nat \<Rightarrow> string" where
  "str_nat n = (if n < 10 then [digit_char n] else str_nat (n div 10) @ [digit_char (n mod 10)])"

declare str_nat.simps [simp del]

text \<open>
  The delimited-text writer quotes a field that holds the delimiter, the quote character
  or a line break, doubling the quotes inside, and writes a record made of one empty
  field as a pair of quotes. Fields are joined with commas.
\<close>

definition csv_special :: "char \<Rightarrow> bool" where
  "csv_special c \<longleftrightarrow> c = CHR '','' \<or> c = CHR 0x22 \<or> c = CHR 0x0A \<or> c = CHR 0x0D"

definition csv_quote :: "string \<Rightarrow> string" where
  "csv_quote s =
     CHR 0x22 # concat (map (\<lambda>c. if c = CHR 0x22 then [c, c] else [c]) s) @ [CHR 0x22]"

definition csv_field :: "string \<Rightarrow> string" where
  "csv_field s = (if list_ex csv_special s then csv_quote s else s)"

fun join_comma :: "string list \<Rightarrow> string" where
  "join_comma [] = []"
| "join_comma [f] = f"
| "join_comma (f # g # fs) = f @ CHR '','' # join_comma (g # fs)"

definition csv_row :: "string list \<Rightarrow> string" where
  "csv_row fs = (if fs = [[]] then csv_quote [] else join_comma (map csv_field fs))"

text \<open>
  The text of one cell: not-a-number is written as the empty field (the writer's default
  \<^verbatim>\<open>na_rep\<close>), a number as the runtime prints a float. That conversion is library
  code; it is the parameter \<open>fstr\<close>.
\<close>

definition cell_text :: "(real \<Rightarrow> string) \<Rightarrow> float \<Rightarrow> string" where
  "cell_text fstr x = (case x of NaN \<Rightarrow> [] | Val v \<Rightarrow> fstr v)"

text \<open>
  \<^verbatim>\<open>pd.DataFrame(a).to_csv(fout, index=False)\<close>, as the list of lines written. The
  frame of a bare array labels its columns \<open>0, 1, ...\<close>; \<^verbatim>\<open>index=False\<close> leaves the row
  labels out, and the header, which the call does not switch off, is the first line.
\<close>

definition to_csv :: "(real \<Rightarrow> string) \<Rightarrow> float array2 \<Rightarrow> string list" where
  "to_csv fstr df =
     csv_row (map str_nat [0..<shape1 df]) # map (\<lambda>r. csv_row (map (cell_text fstr) r)) (cells df)"

text \<open>\<^verbatim>\<open>os.path.join\<close> of two components.\<close>

definition path_join :: "string \<Rightarrow> string \<Rightarrow> string" where
  "path_join a b =
     (if b \<noteq> [] \<and> hd b = CHR ''/'' then b
      else if a = [] \<or> last a = CHR ''/'' then a @ b
      else a @ CHR ''/'' # b)"

definition fout_path :: "string \<Rightarrow> string \<Rightarrow> string" where
  "fout_path path_data plateifu = path_join path_data (''manga-'' @ plateifu @ ''_mstar.csv'')"

section \<open>The run (source lines 36 to 77)\<close>

text \<open>
  What the script finds outside itself: the parent of the working directory, the catalog
  at the fixed path (or nothing readable there), the first axis length in the header of
  the galaxy's cube (or an error of the cube service, whose database mode the script
  switches off first), the runtime's float printer, and whether a path can be written.
\<close>

record env =
  path_repo :: string
  firefly :: "catalog option"
  cube_naxis1 :: "string \<Rightarrow> int option"
  float_str :: "real \<Rightarrow> string"
  can_write :: "string \<Rightarrow> bool"

text \<open>
  What the script changes: whether the handle \<^verbatim>\<open>fin\<close> is held, the files written
  (as lines) and the lines printed.
\<close>

record world =
  fin_open :: bool
  files :: "string \<Rightarrow> string list option"
  stdout :: "string list"

definition world0 :: world where
  "world0 = \<lparr>fin_open = False, files = Map.empty, stdout = []\<rparr>"

text \<open>
  The statements in order. The script has no handler and no scoped acquisition: an error
  ends the run where it is raised, with the world as it is then. The result is the error,
  if any, and the final world.
\<close>

definition run :: "env \<Rightarrow> string \<Rightarrow> world \<Rightarrow> error option \<times> world" where
  "run E plateifu w0 =
     (let path_data = path_join (path_repo E) ''data'' in
      case firefly E of
        None \<Rightarrow> (Some OSError, w0)
      | Some fin \<Rightarrow>
          (let w1 = w0\<lparr>fin_open := True\<rparr> in
           case select_ind1 (plateifus fin) plateifu of
             Inl e \<Rightarrow> (Some e, w1)
           | Inr ind1 \<Rightarrow>
               (case select_binid (spaxel_binid fin) ind1 of
                  Inl e \<Rightarrow> (Some e, w1)
                | Inr ind_binid \<Rightarrow>
                    (case build_mstar (mstar_all fin) ind1 ind_binid of
                       Inl e \<Rightarrow> (Some e, w1)
                     | Inr mstar \<Rightarrow>
                         (case cube_naxis1 E plateifu of
                            None \<Rightarrow> (Some MarvinError, w1)
                          | Some len_x \<Rightarrow>
                              (let df = crop mstar len_x;
                                   fout = fout_path path_data plateifu
                               in if \<not> can_write E fout then (Some OSError, w1)
                                  else
                                    (let w2 = w1\<lparr>files := (files w1)(fout \<mapsto> to_csv (float_str E) df)\<rparr>;
                                         w3 = w2\<lparr>stdout := stdout w2 @ [[], ''Wrote: '' @ fout]\<rparr>;
                                         w4 = w3\<lparr>fin_open := False\<rparr>
                                     in (None, w4))))))))"

section \<open>The end-to-end scenario of the specification\<close>

text \<open>
  One galaxy \<open>0001-01\<close> whose bin ids are \<open>[[0, -99], [1, 0]]\<close>, with a given page of
  the mass table, a cube whose first axis has length 2, and whole-valued masses, which
  the runtime prints as their digits followed by \<open>.0\<close>.
\<close>

definition spx :: "real \<Rightarrow> spaxel" where
  "spx b = \<lparr>binid = b, xmin = 0, xmax = 0, ymin = 0, ymax = 0, image_size = 0\<rparr>"

definition scenario_binid :: "spaxel array2" where
  "scenario_binid = \<lparr>shape0 = 2, shape1 = 2, cells = [[spx 0, spx (- 99)], [spx 1, spx 0]]\<rparr>"

definition scenario_catalog :: "(float \<times> float) list \<Rightarrow> catalog" where
  "scenario_catalog page =
     \<lparr>plateifus = [''0001-01''], spaxel_binid = [scenario_binid], mstar_all = [page]\<rparr>"

definition repr_whole :: "real \<Rightarrow> string" where
  "repr_whole x = (if x < 0 then ''-'' else []) @ str_nat (nat \<lfloor>\<bar>x\<bar>\<rfloor>) @ ''.0''"

definition scenario_cube :: "string \<Rightarrow> int option" where
  "scenario_cube p = (if p = ''0001-01'' then Some 2 else None)"

definition scenario_env :: "(float \<times> float) list \<Rightarrow> env" where
  "scenario_env page =
     \<lparr>path_repo = ''/repo'', firefly = Some (scenario_catalog page),
      cube_naxis1 = scenario_cube, float_str = repr_whole, can_write = (\<lambda>p. True)\<rparr>"

text \<open>
  Reading a token back, in the words of the specification: the empty token and \<open>nan\<close>
  read as not-a-number, a plain decimal literal reads as its value; other tokens are not
  covered.
\<close>

fun position_of :: "'a \<Rightarrow> 'a list \<Rightarrow> nat option" where
  "position_of c [] = None"
| "position_of c (x # xs) = (if c = x then Some 0 else map_option Suc (position_of c xs))"

definition digit_val :: "char \<Rightarrow> nat option" where
  "digit_val c = position_of c ''0123456789''"

fun digits_val :: "nat \<Rightarrow> string \<Rightarrow> nat option" where
  "digits_val acc [] = Some acc"
| "digits_val acc (c # cs) =
     (case digit_val c of None \<Rightarrow> None | Some d \<Rightarrow> digits_val (10 * acc + d) cs)"

definition parse_decimal :: "string \<Rightarrow> real option" where
  "parse_decimal s =
     (let ip = takeWhile (\<lambda>c. c \<noteq> CHR ''.'') s;
          fp = drop (Suc (length ip)) s
      in if ip = [] then None
         else case (digits_val 0 ip, digits_val 0 fp) of
                (Some a, Some b) \<Rightarrow> Some (real a + real b / 10 ^ length fp)
              | _ \<Rightarrow> None)"

definition parse_token :: "string \<Rightarrow> float option" where
  "parse_token s =
     (if s = [] \<or> s = ''nan'' then Some NaN
      else if hd s = CHR ''-'' then map_option (\<lambda>v. Val (- v)) (parse_decimal (tl s))
      else map_option Val (parse_decimal s))"

fun split_comma :: "string \<Rightarrow> string \<Rightarrow> string list" where
  "split_comma cur [] = [rev cur]"
| "split_comma cur (c # cs) =
     (if c = CHR '','' then rev cur # split_comma [] cs else split_comma (c # cur) cs)"

definition parse_line :: "string \<Rightarrow> float option list" where
  "parse_line l = map parse_token (split_comma [] l)"

section \<open>Vocabulary of the statements\<close>

text \<open>The indices an axis of length \<open>n\<close> accepts, and the position each of them reads.\<close>

definition valid_index :: "nat \<Rightarrow> int \<Rightarrow> bool" where
  "valid_index n i \<longleftrightarrow> - int n \<le> i \<and> i < int n"

definition norm_index :: "nat \<Rightarrow> int \<Rightarrow> nat" where
  "norm_index n i = nat (if i < 0 then i + int n else i)"

text \<open>
  A row after one round of the loop, when its gather succeeds: the gathered masses with
  the sentinel positions overwritten.
\<close>

definition masked :: "float list \<Rightarrow> int list \<Rightarrow> float list" where
  "masked col inds = map (\<lambda>j. if j = - 99 then NaN else col ! norm_index (length col) j) inds"

section \<open>Indexing, gathering and masking\<close>

lemma getitem_cases:
  "getitem xs i = (if valid_index (length xs) i then Inr (xs ! norm_index (length xs) i) else Inl IndexError)"
  by (auto simp: getitem_def valid_index_def norm_index_def Let_def)

lemma gather_cases:
  "gather xs js =
     (if list_all (valid_index (length xs)) js
      then Inr (map (\<lambda>j. xs ! norm_index (length xs) j) js) else Inl IndexError)"
  by (induction js) (auto simp: getitem_cases)

lemma length_put: "length (put xs ks v) = length xs"
  unfolding put_def by (induction ks arbitrary: xs) auto

lemma nth_put:
  "k < length xs \<Longrightarrow> put xs ks v ! k = (if k \<in> set ks then v else xs ! k)"
  unfolding put_def
  by (induction ks arbitrary: xs) (auto simp: nth_list_update)

lemma set_where_eq: "set (where_eq xs v) = {k. k < length xs \<and> xs ! k = v}"
  by (auto simp: where_eq_def)

lemma put_where_eq:
  "put (map f inds) (where_eq inds s) v = map (\<lambda>j. if j = s then v else f j) inds"
  by (rule nth_equalityI) (auto simp: length_put nth_put set_where_eq)

lemma mstar_loop_cases:
  assumes "getitem tbl (int ind1) = Inr page" and "row + length rows \<le> length mstar"
  shows "mstar_loop tbl ind1 row rows mstar =
     (if list_all (list_all (valid_index (length page))) rows
      then Inr (take row mstar @ map (masked (mass_column page)) rows @ drop (row + length rows) mstar)
      else Inl IndexError)"
  using assms
proof (induction rows arbitrary: row mstar)
  case Nil
  then show ?case by simp
next
  case (Cons inds rest)
  have at: "mstar_all_at tbl ind1 inds =
      (if list_all (valid_index (length page)) inds
       then Inr (map (\<lambda>j. mass_column page ! norm_index (length page) j) inds) else Inl IndexError)"
    using Cons.prems(1) by (simp add: mstar_all_at_def gather_cases mass_column_def)
  show ?case
  proof (cases "list_all (valid_index (length page)) inds")
    case False
    then show ?thesis using at by simp
  next
    case True
    let ?vals = "map (\<lambda>j. mass_column page ! norm_index (length page) j) inds"
    let ?m2 = "mstar[row := masked (mass_column page) inds]"
    have row: "row < length mstar" using Cons.prems(2) by simp
    have step: "mstar_loop tbl ind1 row (inds # rest) mstar = mstar_loop tbl ind1 (Suc row) rest ?m2"
      using True at row by (simp add: Let_def put_where_eq masked_def mass_column_def cong: if_cong)
    have ih: "mstar_loop tbl ind1 (Suc row) rest ?m2 =
      (if list_all (list_all (valid_index (length page))) rest
       then Inr (take (Suc row) ?m2 @ map (masked (mass_column page)) rest @ drop (Suc row + length rest) ?m2)
       else Inl IndexError)"
      using Cons.IH[OF Cons.prems(1), of "Suc row" ?m2] Cons.prems(2) by simp
    have t: "take (Suc row) ?m2 = take row mstar @ [masked (mass_column page) inds]"
      using row by (simp add: take_Suc_conv_app_nth)
    show ?thesis using True step ih t by simp
  qed
qed

lemma build_mstar_cases:
  assumes "getitem tbl (int ind1) = Inr page" and "rect g"
  shows "build_mstar tbl ind1 g =
     (if list_all (list_all (valid_index (length page))) (cells g)
      then Inr \<lparr>shape0 = shape0 g, shape1 = shape1 g, cells = map (masked (mass_column page)) (cells g)\<rparr>
      else Inl IndexError)"
proof -
  have len: "length (cells g) = shape0 g" using assms(2) by (simp add: rect_def)
  show ?thesis
    using mstar_loop_cases[OF assms(1), of 0 "cells g" "replicate (shape0 g) (replicate (shape1 g) (times_nan (Val 1)))"] len
    by (simp add: build_mstar_def ones_times_nan_def Let_def)
qed

lemma nth_masked:
  "c < length inds \<Longrightarrow> valid_index (length col) (inds ! c) \<Longrightarrow>
   (if inds ! c = - 99 then masked col inds ! c = NaN
    else getitem col (inds ! c) = Inr (masked col inds ! c))"
  by (simp add: masked_def getitem_cases)

lemma rect_nth: "rect a \<Longrightarrow> r < shape0 a \<Longrightarrow> length (cells a ! r) = shape1 a"
  by (simp add: rect_def list_all_length)

section \<open>The mass array holds the gathered masses, masked at the sentinel\<close>

text \<open>
  Claim C1, as the code has it. Let the galaxy's page of the mass table have \<open>n\<close> bins.
  When every bin id of the grid, the sentinel included, lies in \<open>-n \<le> b < n\<close>, the
  builder returns an array of the shape of the bin-id array in which a cell whose bin id
  is the sentinel -99 holds not-a-number and every other cell holds the mass (first
  field) that indexing the mass column with its bin id reads; otherwise the gather raises
  \<open>IndexError\<close> and no array is built. The sentinel is gathered before it is masked,
  so it has to be a valid index itself: a page of fewer than 99 bins faults on it.
\<close>

theorem mass_grid_gather_and_mask:
  assumes "rect ind_binid" and "getitem tbl (int ind1) = Inr page"
  shows "if list_all (list_all (valid_index (length page))) (cells ind_binid)
         then \<exists>mstar. build_mstar tbl ind1 ind_binid = Inr mstar \<and>
                shape0 mstar = shape0 ind_binid \<and> shape1 mstar = shape1 ind_binid \<and>
                rect mstar \<and>
                (\<forall>r<shape0 ind_binid. \<forall>c<shape1 ind_binid.
                   if cells ind_binid ! r ! c = - 99 then cells mstar ! r ! c = NaN
                   else getitem (mass_column page) (cells ind_binid ! r ! c) = Inr (cells mstar ! r ! c))
         else build_mstar tbl ind1 ind_binid = Inl IndexError"
proof (cases "list_all (list_all (valid_index (length page))) (cells ind_binid)")
  case False
  then show ?thesis using build_mstar_cases[OF assms(2) assms(1)] by simp
next
  case True
  let ?m = "\<lparr>shape0 = shape0 ind_binid, shape1 = shape1 ind_binid,
             cells = map (masked (mass_column page)) (cells ind_binid)\<rparr>"
  have b: "build_mstar tbl ind1 ind_binid = Inr ?m"
    using True build_mstar_cases[OF assms(2) assms(1)] by simp
  have len: "length (cells ind_binid) = shape0 ind_binid" using assms(1) by (simp add: rect_def)
  have r: "rect ?m"
    using assms(1) by (simp add: rect_def list_all_length masked_def)
  have cellwise: "if cells ind_binid ! r ! c = - 99 then cells ?m ! r ! c = NaN
       else getitem (mass_column page) (cells ind_binid ! r ! c) = Inr (cells ?m ! r ! c)"
    if "r < shape0 ind_binid" and "c < shape1 ind_binid" for r c
  proof -
    have lr: "length (cells ind_binid ! r) = shape1 ind_binid"
      using rect_nth[OF assms(1) that(1)] .
    have v: "valid_index (length (mass_column page)) (cells ind_binid ! r ! c)"
      using True that len lr by (simp add: list_all_length mass_column_def)
    show ?thesis
      using nth_masked[of c "cells ind_binid ! r" "mass_column page"] v that len lr by simp
  qed
  have "\<exists>mstar. build_mstar tbl ind1 ind_binid = Inr mstar \<and>
          shape0 mstar = shape0 ind_binid \<and> shape1 mstar = shape1 ind_binid \<and>
          rect mstar \<and>
          (\<forall>r<shape0 ind_binid. \<forall>c<shape1 ind_binid.
             if cells ind_binid ! r ! c = - 99 then cells mstar ! r ! c = NaN
             else getitem (mass_column page) (cells ind_binid ! r ! c) = Inr (cells mstar ! r ! c))"
  proof (intro exI[of _ ?m] conjI allI impI)
    show "build_mstar tbl ind1 ind_binid = Inr ?m" by (rule b)
    show "rect ?m" by (rule r)
    show "if cells ind_binid ! r ! c = - 99 then cells ?m ! r ! c = NaN
       else getitem (mass_column page) (cells ind_binid ! r ! c) = Inr (cells ?m ! r ! c)"
      if "r < shape0 ind_binid" and "c < shape1 ind_binid" for r c
      using cellwise[OF that] .
  qed simp_all
  then show ?thesis using True by simp
qed

theorem mass_grid_gather_and_mask_witness:
  "rect \<lparr>shape0 = 1, shape1 = 2, cells = [[0, - 99 :: int]]\<rparr> \<and>
   getitem [(Val 5, Val 0) # (Val 7, Val 0) # replicate 97 (NaN, NaN)] (int 0) =
     Inr ((Val 5, Val 0) # (Val 7, Val 0) # replicate 97 (NaN, NaN)) \<and>
   (\<exists>mstar. build_mstar [(Val 5, Val 0) # (Val 7, Val 0) # replicate 97 (NaN, NaN)] 0
              \<lparr>shape0 = 1, shape1 = 2, cells = [[0, - 99]]\<rparr> = Inr mstar \<and>
      shape0 mstar = 1 \<and> shape1 mstar = 2 \<and>
      cells mstar ! 0 ! 0 = Val 5 \<and> cells mstar ! 0 ! 1 = NaN)"
proof -
  let ?g = "\<lparr>shape0 = 1, shape1 = 2, cells = [[0, - 99 :: int]]\<rparr>"
  let ?page = "(Val 5, Val 0) # (Val 7, Val 0) # replicate 97 (NaN, NaN)"
  have h1: "rect ?g" by (simp add: rect_def)
  have h2: "getitem [?page] (int 0) = Inr ?page" by (simp add: getitem_def)
  have h3: "list_all (list_all (valid_index (length ?page))) (cells ?g)"
    by (simp add: valid_index_def)
  from mass_grid_gather_and_mask[OF h1 h2] h3
  obtain mstar where m: "build_mstar [?page] 0 ?g = Inr mstar"
      "shape0 mstar = shape0 ?g" "shape1 mstar = shape1 ?g"
      and cw: "\<forall>r<shape0 ?g. \<forall>c<shape1 ?g.
             if cells ?g ! r ! c = - 99 then cells mstar ! r ! c = NaN
             else getitem (mass_column ?page) (cells ?g ! r ! c) = Inr (cells mstar ! r ! c)"
    by (simp only: if_True) blast
  have "cells mstar ! 0 ! 0 = Val 5"
    using cw[rule_format, of 0 0] by (simp add: getitem_def mass_column_def)
  moreover have "cells mstar ! 0 ! 1 = NaN"
    using cw[rule_format, of 0 1] by simp
  ultimately show ?thesis using m h1 h2 by (intro conjI exI[of _ mstar]) simp_all
qed

text \<open>
  With a mass column of two bins the row \<open>[0, -99]\<close> is not built: -99 is out of
  bounds for an axis of length 2.
\<close>

theorem mass_grid_short_column_counterexample:
  "build_mstar [[(Val 5, Val 0), (Val 7, Val 0)]] 0 \<lparr>shape0 = 1, shape1 = 2, cells = [[0, - 99]]\<rparr>
     = Inl IndexError"
  by (simp add: build_mstar_def ones_times_nan_def mstar_all_at_def getitem_def mass_column_def)


section \<open>When the gather succeeds\<close>

lemma build_mstar_valid:
  assumes "rect g" and "getitem tbl (int ind1) = Inr page"
    and "list_all (list_all (valid_index (length page))) (cells g)"
  shows "build_mstar tbl ind1 g =
     Inr \<lparr>shape0 = shape0 g, shape1 = shape1 g, cells = map (masked (mass_column page)) (cells g)\<rparr>"
  using build_mstar_cases[OF assms(2) assms(1)] assms(3) by simp

lemma grid_all_mono:
  "list_all (list_all P) xss \<Longrightarrow> (\<And>x. P x \<Longrightarrow> Q x) \<Longrightarrow> list_all (list_all Q) xss"
  by (auto simp: list_all_iff)

lemma grid_all_conj:
  "list_all (list_all P) xss \<Longrightarrow> list_all (list_all Q) xss \<Longrightarrow>
   list_all (list_all (\<lambda>x. P x \<and> Q x)) xss"
  by (induction xss) (simp_all add: list_all_iff)

lemma masked_no_nan:
  "list_all (\<lambda>b. 0 \<le> b \<and> b < int (length col) \<and> col ! nat b \<noteq> NaN) inds \<Longrightarrow>
   list_all (\<lambda>v. v \<noteq> NaN) (masked col inds)"
  by (induction inds) (auto simp: masked_def norm_index_def)

lemma masked_rows_no_nan:
  "list_all (list_all (\<lambda>b. 0 \<le> b \<and> b < int (length col) \<and> col ! nat b \<noteq> NaN)) rows \<Longrightarrow>
   list_all (list_all (\<lambda>v. v \<noteq> NaN)) (map (masked col) rows)"
  by (induction rows) (simp_all add: masked_no_nan)

lemma length_mass_column: "length (mass_column page) = length page"
  by (simp add: mass_column_def)

section \<open>A grid without the sentinel\<close>

text \<open>
  Claim C3, as the code has it. No cell is masked when the grid holds no sentinel, but
  the masses are copied as they stand, so a not-a-number in the mass column reaches the
  grid. When every bin id is a valid index \<open>0 \<le> b < n\<close> into the mass column and the
  mass at every bin the grid refers to is a number, the builder returns a grid without
  any not-a-number cell.
\<close>

theorem no_sentinel_no_mask:
  assumes "rect ind_binid" and "getitem tbl (int ind1) = Inr page"
    and "list_all (list_all (\<lambda>b. 0 \<le> b \<and> b < int (length page) \<and> mass_column page ! nat b \<noteq> NaN))
           (cells ind_binid)"
  shows "\<exists>mstar. build_mstar tbl ind1 ind_binid = Inr mstar \<and>
           list_all (list_all (\<lambda>v. v \<noteq> NaN)) (cells mstar)"
proof -
  have v: "list_all (list_all (valid_index (length page))) (cells ind_binid)"
    using assms(3) by (elim grid_all_mono) (auto simp: valid_index_def)
  have "list_all (list_all (\<lambda>v. v \<noteq> NaN)) (map (masked (mass_column page)) (cells ind_binid))"
    using assms(3) by (intro masked_rows_no_nan) (simp add: length_mass_column)
  then show ?thesis
    using build_mstar_valid[OF assms(1) assms(2) v] by simp
qed

theorem no_sentinel_no_mask_witness:
  "rect \<lparr>shape0 = 1, shape1 = 2, cells = [[1, 0 :: int]]\<rparr> \<and>
   getitem [[(Val 5, Val 0), (Val 7, Val 0)]] (int 0) = Inr [(Val 5, Val 0), (Val 7, Val 0)] \<and>
   (\<exists>mstar. build_mstar [[(Val 5, Val 0), (Val 7, Val 0)]] 0
      \<lparr>shape0 = 1, shape1 = 2, cells = [[1, 0]]\<rparr> = Inr mstar \<and>
      list_all (list_all (\<lambda>v. v \<noteq> NaN)) (cells mstar))"
proof -
  let ?g = "\<lparr>shape0 = 1, shape1 = 2, cells = [[1, 0 :: int]]\<rparr>"
  let ?page = "[(Val 5, Val 0), (Val 7, Val 0)]"
  have h1: "rect ?g" by (simp add: rect_def)
  have h2: "getitem [?page] (int 0) = Inr ?page" by (simp add: getitem_def)
  have h3: "list_all (list_all (\<lambda>b. 0 \<le> b \<and> b < int (length ?page) \<and> mass_column ?page ! nat b \<noteq> NaN))
           (cells ?g)"
    by (simp add: mass_column_def)
  show ?thesis
    using no_sentinel_no_mask[OF h1 h2 h3] h1 h2 by simp
qed

text \<open>
  A grid \<open>[[0]]\<close> without sentinel over a mass column whose bin 0 is not-a-number
  yields the grid \<open>[[NaN]]\<close>.
\<close>

theorem nan_mass_reaches_grid_counterexample:
  "build_mstar [[(NaN, Val 0)]] 0 \<lparr>shape0 = 1, shape1 = 1, cells = [[0]]\<rparr>
     = Inr \<lparr>shape0 = 1, shape1 = 1, cells = [[NaN]]\<rparr>"
  by (simp add: build_mstar_def ones_times_nan_def mstar_all_at_def getitem_def mass_column_def
      where_eq_def put_def times_nan_def)

section \<open>When the builder completes\<close>

text \<open>
  Claim C4, as the code has it. The builder takes the tables and the bin-id array and
  returns an array or an error; it has no access to the files or the output of the run.
  It completes without an error when the bin-id array is rectangular, the galaxy has a
  page in the mass table, every bin id other than the sentinel is a valid bin index
  \<open>0 \<le> b < n\<close>, and either the page has at least 99 bins or the grid holds no sentinel:
  the sentinel -99 is used as an index before it is masked.
\<close>

theorem gather_and_mask_completes:
  assumes "rect ind_binid" and "getitem tbl (int ind1) = Inr page"
    and "list_all (list_all (\<lambda>b. b = - 99 \<or> 0 \<le> b \<and> b < int (length page))) (cells ind_binid)"
    and "99 \<le> length page \<or> list_all (list_all (\<lambda>b. b \<noteq> - 99)) (cells ind_binid)"
  shows "\<exists>mstar. build_mstar tbl ind1 ind_binid = Inr mstar"
proof -
  have "list_all (list_all (valid_index (length page))) (cells ind_binid)"
    using assms(4)
  proof
    assume "99 \<le> length page"
    then show ?thesis
      using assms(3) by (elim grid_all_mono) (auto simp: valid_index_def)
  next
    assume "list_all (list_all (\<lambda>b. b \<noteq> - 99)) (cells ind_binid)"
    then have "list_all (list_all (\<lambda>b. (b = - 99 \<or> 0 \<le> b \<and> b < int (length page)) \<and> b \<noteq> - 99))
        (cells ind_binid)"
      using assms(3) by (rule grid_all_conj[rotated])
    then show ?thesis
      by (elim grid_all_mono) (auto simp: valid_index_def)
  qed
  then show ?thesis
    using build_mstar_valid[OF assms(1) assms(2)] by simp
qed

theorem gather_and_mask_completes_witness:
  "rect \<lparr>shape0 = 1, shape1 = 2, cells = [[1, - 99 :: int]]\<rparr> \<and>
   getitem [replicate 99 (Val 3, Val 0)] (int 0) = Inr (replicate 99 (Val 3, Val 0)) \<and>
   (\<exists>mstar. build_mstar [replicate 99 (Val 3, Val 0)] 0
      \<lparr>shape0 = 1, shape1 = 2, cells = [[1, - 99]]\<rparr> = Inr mstar)"
proof -
  let ?g = "\<lparr>shape0 = 1, shape1 = 2, cells = [[1, - 99 :: int]]\<rparr>"
  let ?page = "replicate 99 (Val 3, Val 0)"
  have h1: "rect ?g" by (simp add: rect_def)
  have h2: "getitem [?page] (int 0) = Inr ?page" by (simp add: getitem_def)
  have h3: "list_all (list_all (\<lambda>b. b = - 99 \<or> 0 \<le> b \<and> b < int (length ?page))) (cells ?g)"
    by simp
  have h4: "99 \<le> length ?page \<or> list_all (list_all (\<lambda>b. b \<noteq> - 99)) (cells ?g)"
    by simp
  show ?thesis
    using gather_and_mask_completes[OF h1 h2 h3 h4] h1 h2 by simp
qed

text \<open>A single sentinel cell over a mass column of one bin raises \<open>IndexError\<close>.\<close>

theorem gather_faults_on_sentinel_counterexample:
  "build_mstar [[(Val 5, Val 0)]] 0 \<lparr>shape0 = 1, shape1 = 1, cells = [[- 99]]\<rparr> = Inl IndexError"
  by (simp add: build_mstar_def ones_times_nan_def mstar_all_at_def getitem_def mass_column_def)

section \<open>Negative bin ids other than the sentinel\<close>

text \<open>
  Claim C10, as the code has it. Only cells equal to -99 are masked. In a grid all of
  whose bin ids lie in \<open>-n \<le> b < n\<close>, a cell holding a negative bin id \<open>b\<close> other than
  -99 receives the mass \<open>-b\<close> positions from the end of the mass column, that is the one
  at position \<open>n + b\<close>. A negative bin id below \<open>-n\<close> is out of bounds and the builder
  raises \<open>IndexError\<close>.
\<close>

theorem negative_bin_id_aliases:
  assumes "rect ind_binid" and "getitem tbl (int ind1) = Inr page"
    and "list_all (list_all (valid_index (length page))) (cells ind_binid)"
    and "r < shape0 ind_binid" and "c < shape1 ind_binid"
    and "cells ind_binid ! r ! c < 0" and "cells ind_binid ! r ! c \<noteq> - 99"
  shows "\<exists>mstar. build_mstar tbl ind1 ind_binid = Inr mstar \<and>
           cells mstar ! r ! c = mass_column page ! nat (int (length page) + cells ind_binid ! r ! c)"
proof -
  have len: "length (cells ind_binid) = shape0 ind_binid"
    using assms(1) by (simp add: rect_def)
  have lr: "length (cells ind_binid ! r) = shape1 ind_binid"
    using rect_nth[OF assms(1) assms(4)] .
  have "masked (mass_column page) (cells ind_binid ! r) ! c =
      mass_column page ! nat (int (length page) + cells ind_binid ! r ! c)"
    using assms(5-7) lr by (simp add: masked_def norm_index_def mass_column_def add.commute)
  then show ?thesis
    using build_mstar_valid[OF assms(1-3)] assms(4) len by simp
qed

theorem negative_bin_id_aliases_witness:
  "rect \<lparr>shape0 = 1, shape1 = 1, cells = [[- 1 :: int]]\<rparr> \<and>
   getitem [[(Val 5, Val 0), (Val 7, Val 0)]] (int 0) = Inr [(Val 5, Val 0), (Val 7, Val 0)] \<and>
   (\<exists>mstar. build_mstar [[(Val 5, Val 0), (Val 7, Val 0)]] 0
      \<lparr>shape0 = 1, shape1 = 1, cells = [[- 1]]\<rparr> = Inr mstar \<and> cells mstar ! 0 ! 0 = Val 7)"
proof -
  let ?g = "\<lparr>shape0 = 1, shape1 = 1, cells = [[- 1 :: int]]\<rparr>"
  let ?page = "[(Val 5, Val 0), (Val 7, Val 0)]"
  have h1: "rect ?g" by (simp add: rect_def)
  have h2: "getitem [?page] (int 0) = Inr ?page" by (simp add: getitem_def)
  have h3: "list_all (list_all (valid_index (length ?page))) (cells ?g)"
    by (simp add: valid_index_def)
  show ?thesis
    using negative_bin_id_aliases[OF h1 h2 h3, of 0 0] h1 h2 by (simp add: mass_column_def)
qed

text \<open>The bin id -3 over a mass column of two bins raises \<open>IndexError\<close>.\<close>

theorem negative_bin_id_out_of_bounds_counterexample:
  "build_mstar [[(Val 5, Val 0), (Val 7, Val 0)]] 0 \<lparr>shape0 = 1, shape1 = 1, cells = [[- 3]]\<rparr>
     = Inl IndexError"
  by (simp add: build_mstar_def ones_times_nan_def mstar_all_at_def getitem_def mass_column_def)


section \<open>A galaxy that is not in the catalog\<close>

lemma where_eq_absent: "v \<notin> set xs \<Longrightarrow> where_eq xs v = []"
  by (auto simp: where_eq_def filter_empty_conv)

lemma select_ind1_absent:
  "list_all (\<lambda>p. \<not> chararray_eq p plateifu) ps \<Longrightarrow> select_ind1 ps plateifu = Inl IndexError"
proof -
  assume "list_all (\<lambda>p. \<not> chararray_eq p plateifu) ps"
  then have "True \<notin> set (map (\<lambda>p. chararray_eq p plateifu) ps)"
    by (auto simp: list_all_iff)
  then have "where_eq (map (\<lambda>p. chararray_eq p plateifu) ps) True = []"
    by (rule where_eq_absent)
  then show ?thesis by (simp add: select_ind1_def getitem_def)
qed

text \<open>
  Trailing blanks do not make an identifier absent: \<open>0001-01\<close> followed by a blank
  selects the row of \<open>0001-01\<close>, while a leading blank or another case does not match.
\<close>

lemma select_ind1_trailing_blank:
  "select_ind1 [''8485-1901'', ''0001-01''] ''0001-01 '' = Inr 1"
  "select_ind1 [''8485-1901'', ''0001-01  ''] ''0001-01'' = Inr 1"
  "select_ind1 [''8485-1901'', ''0001-01''] '' 0001-01'' = Inl IndexError"
  by (simp_all add: select_ind1_def chararray_eq_def rstrip_def strip_char_def where_eq_def
      getitem_def)

text \<open>
  Claim C5, as the code has it. An identifier is absent from the column when it equals
  no entry under the column's comparison, which ignores trailing whitespace. For such an
  identifier \<^verbatim>\<open>np.where(...)[0]\<close> is empty and taking its first element raises
  \<open>IndexError\<close>: the resolution yields no index, and a run on an opened catalog ends there
  with that error, nothing written and nothing printed. The error is the indexing fault
  of the array library, not a \<open>NotFoundError\<close>.
\<close>

theorem absent_galaxy_index_error:
  assumes "list_all (\<lambda>p. \<not> chararray_eq p plateifu) (plateifus fin)"
  shows "select_ind1 (plateifus fin) plateifu = Inl IndexError \<and>
         (firefly E = Some fin \<longrightarrow> run E plateifu w = (Some IndexError, w\<lparr>fin_open := True\<rparr>))"
  using select_ind1_absent[OF assms] by (simp add: run_def)

theorem absent_galaxy_index_error_witness:
  "list_all (\<lambda>p. \<not> chararray_eq p ''0001-02'') (plateifus (scenario_catalog [])) \<and>
   select_ind1 (plateifus (scenario_catalog [])) ''0001-02'' = Inl IndexError \<and>
   run (scenario_env []) ''0001-02'' world0 = (Some IndexError, world0\<lparr>fin_open := True\<rparr>)"
proof -
  have h: "list_all (\<lambda>p. \<not> chararray_eq p ''0001-02'') (plateifus (scenario_catalog []))"
    by (simp add: scenario_catalog_def chararray_eq_def rstrip_def strip_char_def)
  show ?thesis
    using absent_galaxy_index_error[OF h, of "scenario_env []" world0] h
    by (simp add: scenario_env_def)
qed

text \<open>
  In a catalog holding only \<open>8485-1901\<close>, asking for \<open>0001-01\<close> does not end in
  \<open>NotFoundError\<close>.
\<close>

theorem absent_galaxy_not_found_counterexample:
  "select_ind1 [''8485-1901''] ''0001-01'' \<noteq> Inl NotFoundError"
  by (simp add: select_ind1_def chararray_eq_def rstrip_def strip_char_def where_eq_def getitem_def)

section \<open>Trimming to the top-left corner\<close>

lemma slice_stop_le: "slice_stop stop n \<le> n"
  by (auto simp: slice_stop_def max_def)

lemma slice_stop_within: "0 \<le> N \<Longrightarrow> nat N \<le> n \<Longrightarrow> slice_stop N n = nat N"
  by (simp add: slice_stop_def)

lemma rect_crop: "rect a \<Longrightarrow> rect (crop a len_x)"
  using slice_stop_le[of len_x "shape0 a"] slice_stop_le[of len_x "shape1 a"]
  by (auto simp: rect_def crop_def list_all_iff dest: in_set_takeD)

lemma nth_crop:
  "rect a \<Longrightarrow> r < slice_stop len_x (shape0 a) \<Longrightarrow> c < slice_stop len_x (shape1 a) \<Longrightarrow>
   cells (crop a len_x) ! r ! c = cells a ! r ! c"
  using slice_stop_le[of len_x "shape0 a"]
  by (simp add: crop_def rect_def)

lemma crop_full:
  assumes "rect a" and "slice_stop len_x (shape0 a) = shape0 a" and "slice_stop len_x (shape1 a) = shape1 a"
  shows "crop a len_x = a"
proof -
  have "map (take (shape1 a)) (cells a) = cells a"
    using assms(1) by (intro map_idI) (simp add: rect_def list_all_iff)
  then show ?thesis
    using assms by (simp add: crop_def rect_def)
qed

text \<open>
  Claim C7. For a rectangular grid and a reference dimension \<open>N\<close> (a number of pixels) that
  exceeds neither axis, the crop has shape \<open>N\<close> by \<open>N\<close> and its cell \<open>(r, c)\<close> is the
  cell \<open>(r, c)\<close> of the grid for all \<open>r, c < N\<close>: the sub-grid of rows \<open>0..N-1\<close> and
  columns \<open>0..N-1\<close>, anchored at the first row and column. When \<open>N\<close> equals both axes the
  crop is the grid itself.
\<close>

theorem crop_top_left:
  assumes "rect a" and "n \<le> shape0 a" and "n \<le> shape1 a"
  shows "shape0 (crop a (int n)) = n \<and> shape1 (crop a (int n)) = n \<and> rect (crop a (int n)) \<and>
         (\<forall>r<n. \<forall>c<n. cells (crop a (int n)) ! r ! c = cells a ! r ! c) \<and>
         (n = shape0 a \<and> n = shape1 a \<longrightarrow> crop a (int n) = a)"
proof -
  have s0: "slice_stop (int n) (shape0 a) = n" and s1: "slice_stop (int n) (shape1 a) = n"
    using assms(2,3) by (simp_all add: slice_stop_within)
  have "shape0 (crop a (int n)) = n" "shape1 (crop a (int n)) = n"
    using s0 s1 by (simp_all add: crop_def)
  moreover have "rect (crop a (int n))" using assms(1) by (rule rect_crop)
  moreover have "\<forall>r<n. \<forall>c<n. cells (crop a (int n)) ! r ! c = cells a ! r ! c"
    using nth_crop[OF assms(1), of _ "int n"] s0 s1 by simp
  moreover have "n = shape0 a \<and> n = shape1 a \<longrightarrow> crop a (int n) = a"
  proof
    assume "n = shape0 a \<and> n = shape1 a"
    then have "slice_stop (int n) (shape0 a) = shape0 a" "slice_stop (int n) (shape1 a) = shape1 a"
      using s0 s1 by simp_all
    then show "crop a (int n) = a" by (rule crop_full[OF assms(1)])
  qed
  ultimately show ?thesis by simp
qed

theorem crop_top_left_witness:
  "rect \<lparr>shape0 = 3, shape1 = 3, cells = [[Val 1, Val 2, Val 3], [Val 4, NaN, Val 6], [Val 7, Val 8, Val 9]]\<rparr> \<and>
   shape0 (crop \<lparr>shape0 = 3, shape1 = 3, cells = [[Val 1, Val 2, Val 3], [Val 4, NaN, Val 6], [Val 7, Val 8, Val 9]]\<rparr> 2) = 2 \<and>
   shape1 (crop \<lparr>shape0 = 3, shape1 = 3, cells = [[Val 1, Val 2, Val 3], [Val 4, NaN, Val 6], [Val 7, Val 8, Val 9]]\<rparr> 2) = 2 \<and>
   cells (crop \<lparr>shape0 = 3, shape1 = 3, cells = [[Val 1, Val 2, Val 3], [Val 4, NaN, Val 6], [Val 7, Val 8, Val 9]]\<rparr> 2) ! 0 ! 0 = Val 1 \<and>
   cells (crop \<lparr>shape0 = 3, shape1 = 3, cells = [[Val 1, Val 2, Val 3], [Val 4, NaN, Val 6], [Val 7, Val 8, Val 9]]\<rparr> 2) ! 1 ! 1 = NaN \<and>
   crop \<lparr>shape0 = 3, shape1 = 3, cells = [[Val 1, Val 2, Val 3], [Val 4, NaN, Val 6], [Val 7, Val 8, Val 9]]\<rparr> 3
     = \<lparr>shape0 = 3, shape1 = 3, cells = [[Val 1, Val 2, Val 3], [Val 4, NaN, Val 6], [Val 7, Val 8, Val 9]]\<rparr>"
proof -
  let ?a = "\<lparr>shape0 = 3, shape1 = 3, cells = [[Val 1, Val 2, Val 3], [Val 4, NaN, Val 6], [Val 7, Val 8, Val 9]]\<rparr>"
  have h: "rect ?a" by (simp add: rect_def)
  have full: "crop ?a 3 = ?a"
    using crop_top_left[OF h, of 3] by simp
  have sh: "shape0 (crop ?a 2) = 2" "shape1 (crop ?a 2) = 2"
    and cw: "\<forall>r<2. \<forall>c<2. cells (crop ?a 2) ! r ! c = cells ?a ! r ! c"
    using crop_top_left[OF h, of 2] by simp_all
  have "cells (crop ?a 2) ! 0 ! 0 = Val 1" using cw[rule_format, of 0 0] by simp
  moreover have "cells (crop ?a 2) ! 1 ! 1 = NaN" using cw[rule_format, of 1 1] by simp
  ultimately show ?thesis using h full sh by simp
qed

section \<open>Shapes before and after trimming\<close>

lemma build_mstar_shape:
  assumes "rect g" and "build_mstar tbl ind1 g = Inr m"
  shows "shape0 m = shape0 g \<and> shape1 m = shape1 g \<and> rect m"
proof (cases "getitem tbl (int ind1)")
  case (Inl e)
  then have "mstar_all_at tbl ind1 inds = Inl e" for inds
    by (simp add: mstar_all_at_def)
  then have "cells g = []"
    using assms(2) by (cases "cells g") (simp_all add: build_mstar_def Let_def)
  then show ?thesis
    using assms by (auto simp: build_mstar_def Let_def ones_times_nan_def rect_def)
next
  case (Inr page)
  show ?thesis
    using build_mstar_cases[OF Inr assms(1)] assms
    by (auto simp: rect_def list_all_iff masked_def split: if_splits)
qed

text \<open>
  Claim C6, as the code has it. Whenever the mass array is built it has the shape of the
  bin-id array. The slice \<^verbatim>\<open>mstar[:len_x, :len_x]\<close> never faults: each axis of the
  trimmed array has the length the slice keeps of that axis, which is the reference
  dimension when \<open>0 \<le> len_x\<close> and \<open>len_x\<close> exceeds neither axis, and is the clamped
  length otherwise.
\<close>

theorem shapes_before_and_after_crop:
  assumes "rect ind_binid" and "build_mstar tbl ind1 ind_binid = Inr mstar"
  shows "shape0 mstar = shape0 ind_binid \<and> shape1 mstar = shape1 ind_binid \<and> rect mstar \<and>
         shape0 (crop mstar len_x) = slice_stop len_x (shape0 ind_binid) \<and>
         shape1 (crop mstar len_x) = slice_stop len_x (shape1 ind_binid) \<and>
         rect (crop mstar len_x) \<and>
         (0 \<le> len_x \<and> nat len_x \<le> shape0 ind_binid \<and> nat len_x \<le> shape1 ind_binid \<longrightarrow>
            shape0 (crop mstar len_x) = nat len_x \<and> shape1 (crop mstar len_x) = nat len_x)"
proof -
  have s: "shape0 mstar = shape0 ind_binid" "shape1 mstar = shape1 ind_binid" "rect mstar"
    using build_mstar_shape[OF assms] by simp_all
  have "rect (crop mstar len_x)" using s(3) by (rule rect_crop)
  then show ?thesis
    using s by (simp add: crop_def slice_stop_within)
qed

theorem shapes_before_and_after_crop_witness:
  "rect \<lparr>shape0 = 2, shape1 = 2, cells = [[0, 1], [1, 0 :: int]]\<rparr> \<and>
   build_mstar [[(Val 5, Val 0), (Val 7, Val 0)]] 0 \<lparr>shape0 = 2, shape1 = 2, cells = [[0, 1], [1, 0]]\<rparr>
     = Inr \<lparr>shape0 = 2, shape1 = 2, cells = [[Val 5, Val 7], [Val 7, Val 5]]\<rparr> \<and>
   shape0 (crop \<lparr>shape0 = 2, shape1 = 2, cells = [[Val 5, Val 7], [Val 7, Val 5]]\<rparr> 1) = 1 \<and>
   shape1 (crop \<lparr>shape0 = 2, shape1 = 2, cells = [[Val 5, Val 7], [Val 7, Val 5]]\<rparr> 1) = 1"
proof -
  let ?g = "\<lparr>shape0 = 2, shape1 = 2, cells = [[0, 1], [1, 0 :: int]]\<rparr>"
  let ?m = "\<lparr>shape0 = 2, shape1 = 2, cells = [[Val 5, Val 7], [Val 7, Val 5]]\<rparr>"
  have h1: "rect ?g" by (simp add: rect_def)
  have h2: "build_mstar [[(Val 5, Val 0), (Val 7, Val 0)]] 0 ?g = Inr ?m"
    by (simp add: build_mstar_def ones_times_nan_def mstar_all_at_def getitem_def mass_column_def
        where_eq_def put_def numeral_2_eq_2)
  show ?thesis
    using shapes_before_and_after_crop[OF h1 h2, of 1] h1 h2 by simp
qed

text \<open>
  A one-by-one mass array trimmed with reference dimension 2 stays one-by-one.
\<close>

theorem crop_beyond_grid_counterexample:
  "build_mstar [[(Val 5, Val 0)]] 0 \<lparr>shape0 = 1, shape1 = 1, cells = [[0]]\<rparr>
     = Inr \<lparr>shape0 = 1, shape1 = 1, cells = [[Val 5]]\<rparr> \<and>
   shape0 (crop \<lparr>shape0 = 1, shape1 = 1, cells = [[Val 5]]\<rparr> 2) = 1 \<and>
   shape1 (crop \<lparr>shape0 = 1, shape1 = 1, cells = [[Val 5]]\<rparr> 2) = 1"
  by (simp add: build_mstar_def ones_times_nan_def mstar_all_at_def getitem_def mass_column_def
      where_eq_def put_def crop_def slice_stop_def)

section \<open>The lines of the written file\<close>

lemma digit_char_in: "d < 10 \<Longrightarrow> digit_char d \<in> set ''0123456789''"
  unfolding digit_char_def by (intro nth_mem) simp

lemma str_nat_digits: "set (str_nat n) \<subseteq> set ''0123456789''"
proof (induction n rule: str_nat.induct)
  case (1 n)
  show ?case
  proof (cases "n < 10")
    case True
    then show ?thesis using digit_char_in[of n] by (subst str_nat.simps) simp
  next
    case False
    have "n mod 10 < 10" by simp
    then have "digit_char (n mod 10) \<in> set ''0123456789''" by (rule digit_char_in)
    then show ?thesis using False 1 by (subst str_nat.simps) simp
  qed
qed

lemma str_nat_plain: "\<not> list_ex csv_special (str_nat n)"
proof -
  have "\<forall>c\<in>set ''0123456789''. \<not> csv_special c" by (simp add: csv_special_def)
  then show ?thesis using str_nat_digits[of n] by (auto simp: list_ex_iff)
qed

lemma str_nat_nonempty: "str_nat n \<noteq> []"
  by (subst str_nat.simps) simp

lemma plain_no_comma: "\<not> list_ex csv_special f \<Longrightarrow> CHR '','' \<notin> set f"
  by (auto simp: list_ex_iff csv_special_def)

lemma split_comma_append:
  "CHR '','' \<notin> set f \<Longrightarrow> split_comma cur (f @ rest) = split_comma (rev f @ cur) rest"
  by (induction f arbitrary: cur) auto

lemma split_join:
  "fs \<noteq> [] \<Longrightarrow> \<forall>f\<in>set fs. CHR '','' \<notin> set f \<Longrightarrow> split_comma [] (join_comma fs) = fs"
proof (induction fs rule: join_comma.induct)
  case 1
  then show ?case by simp
next
  case (2 f)
  then show ?case using split_comma_append[of f "[]" "[]"] by simp
next
  case (3 f g fs)
  then show ?case using split_comma_append[of f "[]" "CHR '','' # join_comma (g # fs)"] by simp
qed

lemma split_csv_row:
  assumes "fs \<noteq> []" and "\<forall>f\<in>set fs. \<not> list_ex csv_special f"
  shows "split_comma [] (csv_row fs) = (if fs = [[]] then [csv_quote []] else fs)"
proof -
  have "map csv_field fs = fs"
    using assms(2) by (intro map_idI) (simp add: csv_field_def)
  moreover have "\<forall>f\<in>set fs. CHR '','' \<notin> set f"
    using assms(2) plain_no_comma by blast
  ultimately show ?thesis
    using assms(1) by (simp add: csv_row_def split_join csv_quote_def)
qed

lemma cell_text_plain:
  "(\<And>x. \<not> list_ex csv_special (fstr x)) \<Longrightarrow> \<not> list_ex csv_special (cell_text fstr v)"
  by (cases v) (simp_all add: cell_text_def)

lemma repr_whole_plain: "\<not> list_ex csv_special (repr_whole x)"
  using str_nat_plain by (simp add: repr_whole_def csv_special_def)

text \<open>
  Claim C8, as the code has it. The call \<^verbatim>\<open>to_csv(fout, index=False)\<close> leaves the
  header on. For a rectangular array with at least one column, and a float printer that
  emits no delimiter, quote or line break, the file has one line more than the array has
  rows: the first line holds the column labels \<open>0, 1, ...\<close>, and line \<open>r + 1\<close> holds
  the texts of the cells of row \<open>r\<close> in order (a lone empty text is written as a pair of
  quotes), one field per column and no field for a row label.
\<close>

theorem csv_header_then_rows:
  assumes "rect df" and "0 < shape1 df" and "\<And>x. \<not> list_ex csv_special (fstr x)"
  shows "length (to_csv fstr df) = Suc (shape0 df) \<and>
         split_comma [] (to_csv fstr df ! 0) = map str_nat [0..<shape1 df] \<and>
         (\<forall>r<shape0 df.
            split_comma [] (to_csv fstr df ! Suc r) =
              (if map (cell_text fstr) (cells df ! r) = [[]] then [csv_quote []]
               else map (cell_text fstr) (cells df ! r)) \<and>
            length (split_comma [] (to_csv fstr df ! Suc r)) = shape1 df)"
proof -
  have len: "length (cells df) = shape0 df" using assms(1) by (simp add: rect_def)
  have "length (to_csv fstr df) = Suc (shape0 df)" by (simp add: to_csv_def len)
  moreover have "split_comma [] (to_csv fstr df ! 0) = map str_nat [0..<shape1 df]"
  proof -
    have ne: "map str_nat [0..<shape1 df] \<noteq> []" using assms(2) by simp
    have "map str_nat [0..<shape1 df] \<noteq> [[]]"
      using str_nat_nonempty by (auto simp: map_eq_Cons_conv)
    then show ?thesis
      using split_csv_row[OF ne] str_nat_plain by (simp add: to_csv_def)
  qed
  moreover have "split_comma [] (to_csv fstr df ! Suc r) =
              (if map (cell_text fstr) (cells df ! r) = [[]] then [csv_quote []]
               else map (cell_text fstr) (cells df ! r)) \<and>
            length (split_comma [] (to_csv fstr df ! Suc r)) = shape1 df"
    if "r < shape0 df" for r
  proof -
    let ?texts = "map (cell_text fstr) (cells df ! r)"
    have lr: "length (cells df ! r) = shape1 df" using rect_nth[OF assms(1) that] .
    then have ne: "?texts \<noteq> []" using assms(2) by auto
    have pl: "\<forall>f\<in>set ?texts. \<not> list_ex csv_special f"
      using cell_text_plain[of fstr] assms(3) by auto
    have line: "to_csv fstr df ! Suc r = csv_row ?texts"
      using that len by (simp add: to_csv_def)
    have sp: "split_comma [] (csv_row ?texts) = (if ?texts = [[]] then [csv_quote []] else ?texts)"
      using split_csv_row[OF ne pl] .
    have "length (split_comma [] (csv_row ?texts)) = shape1 df"
      unfolding sp using lr by (auto)
    then show ?thesis using line sp by simp
  qed
  ultimately show ?thesis by blast
qed

theorem csv_header_then_rows_witness:
  "rect \<lparr>shape0 = 2, shape1 = 2, cells = [[Val 5, NaN], [Val 7, Val 5]]\<rparr> \<and>
   length (to_csv repr_whole \<lparr>shape0 = 2, shape1 = 2, cells = [[Val 5, NaN], [Val 7, Val 5]]\<rparr>) = 3 \<and>
   split_comma [] (to_csv repr_whole \<lparr>shape0 = 2, shape1 = 2, cells = [[Val 5, NaN], [Val 7, Val 5]]\<rparr> ! 0)
     = [''0'', ''1''] \<and>
   split_comma [] (to_csv repr_whole \<lparr>shape0 = 2, shape1 = 2, cells = [[Val 5, NaN], [Val 7, Val 5]]\<rparr> ! 1)
     = [''5.0'', []]"
proof -
  let ?df = "\<lparr>shape0 = 2, shape1 = 2, cells = [[Val 5, NaN], [Val 7, Val 5]]\<rparr>"
  have h1: "rect ?df" by (simp add: rect_def)
  have h2: "0 < shape1 ?df" by simp
  note t = csv_header_then_rows[of ?df repr_whole, OF h1 h2 repr_whole_plain]
  have a: "length (to_csv repr_whole ?df) = 3" using t by simp
  have b: "split_comma [] (to_csv repr_whole ?df ! 0) = [''0'', ''1'']"
    using t by (simp add: upt_rec str_nat.simps digit_char_def)
  have c: "split_comma [] (to_csv repr_whole ?df ! Suc 0) = [''5.0'', []]"
    using t[THEN conjunct2, THEN conjunct2, rule_format, of 0]
    by (simp add: cell_text_def repr_whole_def str_nat.simps digit_char_def)
  show ?thesis using h1 a b c by simp
qed

text \<open>The one-by-one array holding 5.0 is written as two lines, the header first.\<close>

theorem csv_header_line_counterexample:
  "to_csv repr_whole \<lparr>shape0 = 1, shape1 = 1, cells = [[Val 5]]\<rparr> = [''0'', ''5.0'']"
  by (simp add: to_csv_def csv_row_def csv_field_def csv_special_def cell_text_def repr_whole_def
      str_nat.simps digit_char_def)

section \<open>The scenario, run\<close>

lemma scenario_select:
  "select_ind1 (plateifus (scenario_catalog page)) ''0001-01'' = Inr 0 \<and>
   select_binid (spaxel_binid (scenario_catalog page)) 0 =
     Inr \<lparr>shape0 = 2, shape1 = 2, cells = [[0, - 99], [1, 0]]\<rparr>"
  by (simp add: scenario_catalog_def scenario_binid_def spx_def select_ind1_def chararray_eq_def
      rstrip_def strip_char_def where_eq_def getitem_def select_binid_def astype_int_def)

lemma scenario_build:
  assumes "97 \<le> length rest"
  shows "build_mstar [(Val 5, e0) # (Val 7, e1) # rest] 0
           \<lparr>shape0 = 2, shape1 = 2, cells = [[0, - 99], [1, 0]]\<rparr> =
         Inr \<lparr>shape0 = 2, shape1 = 2, cells = [[Val 5, NaN], [Val 7, Val 5]]\<rparr>"
  using assms
  by (simp add: build_mstar_def ones_times_nan_def mstar_all_at_def getitem_def mass_column_def
      where_eq_def put_def numeral_2_eq_2)

lemma scenario_csv:
  assumes "fstr 5 = ''5.0''" and "fstr 7 = ''7.0''"
  shows "to_csv fstr (crop \<lparr>shape0 = 2, shape1 = 2, cells = [[Val 5, NaN], [Val 7, Val 5]]\<rparr> 2) =
         [''0,1'', ''5.0,'', ''7.0,5.0'']"
  using assms
  by (simp add: crop_def slice_stop_def to_csv_def csv_row_def csv_field_def csv_special_def
      cell_text_def str_nat.simps digit_char_def upt_rec)

lemma scenario_parse:
  "map parse_line [''5.0,'', ''7.0,5.0''] = [[Some (Val 5), Some NaN], [Some (Val 7), Some (Val 5)]]"
  by (simp add: parse_line_def parse_token_def parse_decimal_def digit_val_def)

lemma scenario_run_ok:
  assumes "firefly E = Some (scenario_catalog ((Val 5, e0) # (Val 7, e1) # rest))"
    and "97 \<le> length rest"
    and "cube_naxis1 E ''0001-01'' = Some 2"
    and "can_write E (fout_path (path_join (path_repo E) ''data'') ''0001-01'')"
    and "float_str E 5 = ''5.0''" and "float_str E 7 = ''7.0''"
  shows "run E ''0001-01'' w =
     (None, \<lparr>fin_open = False,
             files = (files w)(fout_path (path_join (path_repo E) ''data'') ''0001-01'' \<mapsto>
                        [''0,1'', ''5.0,'', ''7.0,5.0'']),
             stdout = stdout w @ [[], ''Wrote: '' @ fout_path (path_join (path_repo E) ''data'') ''0001-01'']\<rparr>)"
proof -
  let ?page = "(Val 5, e0) # (Val 7, e1) # rest"
  have b: "build_mstar (mstar_all (scenario_catalog ?page)) 0
           \<lparr>shape0 = 2, shape1 = 2, cells = [[0, - 99], [1, 0]]\<rparr> =
         Inr \<lparr>shape0 = 2, shape1 = 2, cells = [[Val 5, NaN], [Val 7, Val 5]]\<rparr>"
    using scenario_build[OF assms(2)] by (simp add: scenario_catalog_def)
  show ?thesis
    using assms(1,3,4) scenario_select[of ?page] b scenario_csv[OF assms(5,6)]
    by (simp add: run_def Let_def)
qed

lemma scenario_run_short:
  "run (scenario_env [(Val 5, Val 0), (Val 7, Val 0)]) ''0001-01'' w
     = (Some IndexError, w\<lparr>fin_open := True\<rparr>)"
proof -
  have "build_mstar [[(Val 5, Val 0), (Val 7, Val 0)]] 0
          \<lparr>shape0 = 2, shape1 = 2, cells = [[0, - 99], [1, 0]]\<rparr> = Inl IndexError"
    by (simp add: build_mstar_def ones_times_nan_def mstar_all_at_def getitem_def mass_column_def)
  then show ?thesis
    using scenario_select[of "[(Val 5, Val 0), (Val 7, Val 0)]"]
    by (simp add: run_def scenario_env_def scenario_catalog_def Let_def)
qed

lemma scenario_env_facts:
  "firefly (scenario_env page) = Some (scenario_catalog page)"
  "cube_naxis1 (scenario_env page) ''0001-01'' = Some 2"
  "can_write (scenario_env page) p"
  "float_str (scenario_env page) 5 = ''5.0''"
  "float_str (scenario_env page) 7 = ''7.0''"
  "fout_path (path_join (path_repo (scenario_env page)) ''data'') ''0001-01'' =
     ''/repo/data/manga-0001-01_mstar.csv''"
  by (simp_all add: scenario_env_def scenario_cube_def repr_whole_def str_nat.simps digit_char_def
      fout_path_def path_join_def)

text \<open>
  Claim C2, as the code has it. Take the galaxy \<open>0001-01\<close> with bin ids
  \<open>[[0, -99], [1, 0]]\<close>, a cube of first axis length 2, and a mass column that starts
  with 5.0 and 7.0 and has at least 99 bins, so that the sentinel is a valid index. The
  mass array is \<open>[[5.0, NaN], [7.0, 5.0]]\<close>, the run succeeds and the file holds three
  lines: the header \<open>0,1\<close>, then \<open>5.0,\<close> and \<open>7.0,5.0\<close>, whose tokens read back as
  5.0, NaN, 7.0 and 5.0.
\<close>

theorem scenario_end_to_end:
  assumes "firefly E = Some (scenario_catalog ((Val 5, e0) # (Val 7, e1) # rest))"
    and "97 \<le> length rest"
    and "cube_naxis1 E ''0001-01'' = Some 2"
    and "can_write E (fout_path (path_join (path_repo E) ''data'') ''0001-01'')"
    and "float_str E 5 = ''5.0''" and "float_str E 7 = ''7.0''"
  shows "build_mstar [(Val 5, e0) # (Val 7, e1) # rest] 0
           \<lparr>shape0 = 2, shape1 = 2, cells = [[0, - 99], [1, 0]]\<rparr> =
           Inr \<lparr>shape0 = 2, shape1 = 2, cells = [[Val 5, NaN], [Val 7, Val 5]]\<rparr> \<and>
         (\<exists>w'. run E ''0001-01'' w = (None, w') \<and>
            files w' (fout_path (path_join (path_repo E) ''data'') ''0001-01'') =
              Some [''0,1'', ''5.0,'', ''7.0,5.0'']) \<and>
         map parse_line [''5.0,'', ''7.0,5.0''] =
           [[Some (Val 5), Some NaN], [Some (Val 7), Some (Val 5)]]"
  using scenario_build[OF assms(2)] scenario_run_ok[OF assms] scenario_parse by simp

theorem scenario_end_to_end_witness:
  "\<exists>w'. run (scenario_env ((Val 5, Val 0) # (Val 7, Val 0) # replicate 97 (NaN, NaN))) ''0001-01'' world0
           = (None, w') \<and>
         files w' ''/repo/data/manga-0001-01_mstar.csv'' = Some [''0,1'', ''5.0,'', ''7.0,5.0'']"
proof -
  let ?E = "scenario_env ((Val 5, Val 0) # (Val 7, Val 0) # replicate 97 (NaN, NaN))"
  have h2: "97 \<le> length (replicate 97 (NaN :: float, NaN :: float))" by simp
  have h1: "firefly ?E = Some (scenario_catalog ((Val 5, Val 0) # (Val 7, Val 0) # replicate 97 (NaN, NaN)))"
    by (rule scenario_env_facts)
  show ?thesis
    using scenario_end_to_end[OF h1 h2 scenario_env_facts(2-5), where w = world0]
    unfolding scenario_env_facts(6) by blast
qed

text \<open>
  With the mass column of exactly the two bins 5.0 and 7.0 the run stops in the gather
  with \<open>IndexError\<close> and writes nothing.
\<close>

theorem scenario_two_bins_counterexample:
  "run (scenario_env [(Val 5, Val 0), (Val 7, Val 0)]) ''0001-01'' world0
     = (Some IndexError, world0\<lparr>fin_open := True\<rparr>)"
  by (rule scenario_run_short)

section \<open>The catalog handle\<close>

text \<open>
  Claim C9, as the code has it. \<^verbatim>\<open>fin.close()\<close> is the last statement and nothing
  guards it. A run that succeeds ends with the handle released; a run that raises after
  the catalog was opened ends with the handle still held; a run that cannot open the
  catalog ends with \<open>OSError\<close> and the world unchanged.
\<close>

theorem handle_released_on_success_only:
  assumes "run E plateifu w = (res, w')"
  shows "(res = None \<longrightarrow> \<not> fin_open w') \<and>
         (res \<noteq> None \<and> firefly E \<noteq> None \<longrightarrow> fin_open w') \<and>
         (firefly E = None \<longrightarrow> res = Some OSError \<and> w' = w)"
  using assms
  by (auto simp: run_def Let_def split: option.splits sum.splits if_splits)

theorem handle_released_on_success_only_witness:
  "(\<exists>w'. run (scenario_env ((Val 5, Val 0) # (Val 7, Val 0) # replicate 97 (NaN, NaN))) ''0001-01'' world0
           = (None, w') \<and> \<not> fin_open w') \<and>
   (\<exists>w'. run (scenario_env [(Val 5, Val 0), (Val 7, Val 0)]) ''0001-01'' world0
           = (Some IndexError, w') \<and> fin_open w')"
proof -
  let ?E = "scenario_env ((Val 5, Val 0) # (Val 7, Val 0) # replicate 97 (NaN, NaN))"
  have h2: "97 \<le> length (replicate 97 (NaN :: float, NaN :: float))" by simp
  have h1: "firefly ?E = Some (scenario_catalog ((Val 5, Val 0) # (Val 7, Val 0) # replicate 97 (NaN, NaN)))"
    by (rule scenario_env_facts)
  note ok = scenario_run_ok[OF h1 h2 scenario_env_facts(2-5), where w = world0]
  note short = scenario_run_short[of world0]
  have "\<not> fin_open (snd (run ?E ''0001-01'' world0))"
    using handle_released_on_success_only[OF ok] ok by simp
  moreover have "fin_open (snd (run (scenario_env [(Val 5, Val 0), (Val 7, Val 0)]) ''0001-01'' world0))"
    using handle_released_on_success_only[OF short] short by (simp add: scenario_env_def)
  ultimately show ?thesis using ok short by simp
qed

text \<open>
  A run for a galaxy that is not in the catalog ends with \<open>IndexError\<close> and the handle
  still held.
\<close>

theorem handle_held_after_error_counterexample:
  "run (scenario_env []) ''9999-99'' world0 = (Some IndexError, world0\<lparr>fin_open := True\<rparr>) \<and>
   fin_open (world0\<lparr>fin_open := True\<rparr>)"
  by (simp add: run_def scenario_env_def scenario_catalog_def select_ind1_def chararray_eq_def
      rstrip_def strip_char_def where_eq_def getitem_def)

end
